theory Spec2Isabelle
  imports Complex_Main "HOL-Library.Multiset"
begin

section \<open>Python values, exceptions and dictionaries\<close>

text \<open>
  The script \<^verbatim>\<open>site_creator.py\<close> moves JSON values and CSV cells around without
  computing on them.  A JSON value (what \<^verbatim>\<open>response.json()\<close> returns, what a submission
  body holds) is a \<open>pyval\<close>; floats are carried as opaque numbers.  A dictionary keeps
  its insertion order, as Python's does, and is an association list read by \<open>map_of\<close>.
\<close>

datatype pyval =
    PNone
  | PBool bool
  | PInt int
  | PFloat real
  | PStr string
  | PList "pyval list"
  | PDict "(string \<times> pyval) list"

text \<open>
  Every exception of the script is an instance of \<^verbatim>\<open>Exception\<close>, so each
  \<^verbatim>\<open>except Exception\<close> catches all of them.  \<open>External\<close> stands for whatever a
  library call raises (a connection error of \<^verbatim>\<open>requests\<close>, a JSON decoding error,
  a missing file).
\<close>

datatype exn = TypeError | KeyError | AttributeError | StopIteration | External string

type_synonym body = "(string \<times> pyval) list"
type_synonym headers = "(string \<times> string) list"

text \<open>\<^verbatim>\<open>d[k] = v\<close>: an existing key keeps its place, a new key goes last.\<close>

fun dict_set :: "'k \<Rightarrow> 'v \<Rightarrow> ('k \<times> 'v) list \<Rightarrow> ('k \<times> 'v) list" where
  "dict_set k v [] = [(k, v)]"
| "dict_set k v ((k', v') # d) =
     (if k' = k then (k', v) # d else (k', v') # dict_set k v d)"

text \<open>\<^verbatim>\<open>{**a, **b}\<close> and \<^verbatim>\<open>dict(pairs)\<close>: the pairs are stored one after the other.\<close>

definition dict_of_pairs :: "('k \<times> 'v) list \<Rightarrow> ('k \<times> 'v) list \<Rightarrow> ('k \<times> 'v) list" where
  "dict_of_pairs d pairs = fold (\<lambda>(k, v) acc. dict_set k v acc) pairs d"

text \<open>
  \<^verbatim>\<open>x["key"]\<close> with a string subscript: a dictionary raises \<^verbatim>\<open>KeyError\<close> for an absent
  key; \<^verbatim>\<open>None\<close>, booleans, numbers, strings and lists raise \<^verbatim>\<open>TypeError\<close>.
\<close>

fun getitem :: "pyval \<Rightarrow> string \<Rightarrow> exn + pyval" where
  "getitem (PDict d) k = (case map_of d k of None \<Rightarrow> Inl KeyError | Some v \<Rightarrow> Inr v)"
| "getitem _ k = Inl TypeError"

text \<open>
  \<^verbatim>\<open>iter(x)\<close>: a list yields its items, a dictionary its keys, a string its characters;
  anything else is not iterable.
\<close>

fun py_iter :: "pyval \<Rightarrow> exn + pyval list" where
  "py_iter (PList xs) = Inr xs"
| "py_iter (PDict d) = Inr (map (\<lambda>(k, v). PStr k) d)"
| "py_iter (PStr s) = Inr (map (\<lambda>c. PStr [c]) s)"
| "py_iter _ = Inl TypeError"

text \<open>Truth value of \<^verbatim>\<open>if x:\<close>.\<close>

fun truthy :: "pyval \<Rightarrow> bool" where
  "truthy PNone = False"
| "truthy (PBool b) = b"
| "truthy (PInt i) = (i \<noteq> 0)"
| "truthy (PFloat r) = (r \<noteq> 0)"
| "truthy (PStr s) = (s \<noteq> [])"
| "truthy (PList xs) = (xs \<noteq> [])"
| "truthy (PDict d) = (d \<noteq> [])"

section \<open>The input file: \<^verbatim>\<open>read_csv\<close> and \<^verbatim>\<open>csv.DictReader\<close>\<close>

text \<open>
  A cell of a row that \<^verbatim>\<open>csv.DictReader\<close> produces is a string, \<^verbatim>\<open>None\<close> (the
  \<^verbatim>\<open>restval\<close> of a short row) or the list of surplus strings of a long row (stored
  under the key \<^verbatim>\<open>None\<close>, the \<^verbatim>\<open>restkey\<close>).  A row is a dictionary whose keys are
  column names or \<^verbatim>\<open>None\<close>.
\<close>

datatype cell = CStr string | CNone | CRest "string list"

type_synonym csv_row = "(string option \<times> cell) list"

fun of_cell :: "cell \<Rightarrow> pyval" where
  "of_cell (CStr s) = PStr s"
| "of_cell CNone = PNone"
| "of_cell (CRest xs) = PList (map PStr xs)"

text \<open>\<^verbatim>\<open>site['column']\<close>\<close>

definition row_get :: "csv_row \<Rightarrow> string \<Rightarrow> exn + cell" where
  "row_get site k = (case map_of site (Some k) of None \<Rightarrow> Inl KeyError | Some c \<Rightarrow> Inr c)"

text \<open>
  \<^verbatim>\<open>DictReader.__next__\<close> for one line of cells: \<^verbatim>\<open>d = dict(zip(fieldnames, row))\<close>,
  then the surplus cells under \<^verbatim>\<open>None\<close>, or \<^verbatim>\<open>None\<close> for each missing column.
\<close>

definition dict_row :: "string list \<Rightarrow> string list \<Rightarrow> csv_row" where
  "dict_row fieldnames row =
     (let d = dict_of_pairs [] (map (\<lambda>(k, v). (Some k, CStr v)) (zip fieldnames row));
          lf = length fieldnames;
          lr = length row
      in if lf < lr then dict_set None (CRest (drop lf row)) d
         else if lf > lr then dict_of_pairs d (map (\<lambda>k. (Some k, CNone)) (drop lr fieldnames))
         else d)"

text \<open>
  The reader takes the first line as the field names and skips blank lines (\<^verbatim>\<open>[]\<close>).
  Its argument is the file as \<^verbatim>\<open>csv.reader\<close> tokenises it, one list of cells per line.
\<close>

definition DictReader :: "string list list \<Rightarrow> csv_row list" where
  "DictReader lines =
     (case lines of
        [] \<Rightarrow> []
      | fieldnames # rest \<Rightarrow> map (dict_row fieldnames) (filter (\<lambda>row. row \<noteq> []) rest))"

section \<open>The outside world\<close>

text \<open>
  A \<^verbatim>\<open>requests\<close> response: its status code and what \<^verbatim>\<open>.json()\<close> gives or raises.
  The object \<^verbatim>\<open>geocoder.google\<close> returns: the four attributes the script reads.
\<close>

record response =
  status_code :: int
  json :: "exn + pyval"

record gaddr =
  g_address :: pyval
  g_lat :: pyval
  g_lng :: pyval
  g_country :: pyval

text \<open>
  Every call that leaves the process is logged as an event.  The timezone request is
  logged with the two coordinates its URL is built from (the URL also holds the clock
  and the Google key).  The POST is logged with the body that \<^verbatim>\<open>json.dumps\<close> serialises.
\<close>

datatype event =
    HttpGet string headers
  | HttpPost string headers body
  | Geocode cell
  | TimezoneGet pyval pyval

text \<open>
  The environment answers each call, knowing all the calls made before it, so the same
  request may be answered differently at different times.  An answer is a value or an
  exception.  \<open>open_csv\<close> gives the tokenised lines of a file, or the exception that
  \<^verbatim>\<open>open\<close> or the tokeniser raises.
\<close>

record env =
  open_csv :: "string \<Rightarrow> exn + string list list"
  requests_get :: "event list \<Rightarrow> string \<Rightarrow> headers \<Rightarrow> exn + response"
  requests_post :: "event list \<Rightarrow> string \<Rightarrow> headers \<Rightarrow> body \<Rightarrow> exn + response"
  geocoder_google :: "event list \<Rightarrow> cell \<Rightarrow> exn + gaddr"
  timezone_get :: "event list \<Rightarrow> pyval \<Rightarrow> pyval \<Rightarrow> exn + response"

definition read_csv :: "env \<Rightarrow> string \<Rightarrow> exn + csv_row list" where
  "read_csv E filename =
     (case open_csv E filename of
        Inl e \<Rightarrow> Inl e
      | Inr lines \<Rightarrow> Inr (DictReader lines))"

section \<open>The platform client: classes \<^verbatim>\<open>MistAPIToken\<close> and \<^verbatim>\<open>Mist\<close>\<close>

record mist_api =
  host :: string
  org :: string
  mist_api_token :: string
  header :: headers

definition MistAPIToken :: "string \<Rightarrow> string \<Rightarrow> string \<Rightarrow> mist_api" where
  "MistAPIToken h og tok =
     \<lparr>host = h, org = og, mist_api_token = tok,
      header = [(''Authorization'', ''Token '' @ tok)]\<rparr>"

text \<open>
  \<^verbatim>\<open>http_get\<close> returns the response, or \<^verbatim>\<open>None\<close> when the request raises.
\<close>

definition http_get :: "env \<Rightarrow> mist_api \<Rightarrow> string \<Rightarrow> event list \<Rightarrow> response option \<times> event list" where
  "http_get E api url w =
     (let hdr = dict_of_pairs [(''content-type'', ''application/json'')] (header api);
          my_url = ''https://'' @ host api @ url
      in (case requests_get E w my_url hdr of Inl e \<Rightarrow> None | Inr r \<Rightarrow> Some r,
          w @ [HttpGet my_url hdr]))"

definition http_post :: "env \<Rightarrow> mist_api \<Rightarrow> string \<Rightarrow> body \<Rightarrow> event list \<Rightarrow> response option \<times> event list" where
  "http_post E api url b w =
     (let hdr = dict_of_pairs [(''content-type'', ''application/json'')] (header api);
          my_url = ''https://'' @ host api @ url
      in (case requests_post E w my_url hdr b of Inl e \<Rightarrow> None | Inr r \<Rightarrow> Some r,
          w @ [HttpPost my_url hdr b]))"

text \<open>
  \<^verbatim>\<open>verify_self\<close> returns \<^verbatim>\<open>True\<close> on status 200, falls off its end (\<^verbatim>\<open>None\<close>) on any
  other status, and returns \<^verbatim>\<open>False\<close> when \<^verbatim>\<open>results\<close> is \<^verbatim>\<open>None\<close>, since
  \<^verbatim>\<open>results.status_code\<close> then raises inside the \<^verbatim>\<open>try\<close>.
\<close>

definition verify_self :: "env \<Rightarrow> mist_api \<Rightarrow> event list \<Rightarrow> pyval \<times> event list" where
  "verify_self E api w =
     (case http_get E api ''/api/v1/self'' w of
        (None, w') \<Rightarrow> (PBool False, w')
      | (Some results, w') \<Rightarrow>
          (if status_code results = 200 then PBool True else PNone, w'))"

definition get_rf_templates :: "env \<Rightarrow> mist_api \<Rightarrow> event list \<Rightarrow> pyval \<times> event list" where
  "get_rf_templates E api w =
     (case http_get E api (''/api/v1/orgs/'' @ org api @ ''/rftemplates'') w of
        (None, w') \<Rightarrow> (PNone, w')
      | (Some r, w') \<Rightarrow> (case json r of Inl e \<Rightarrow> PNone | Inr v \<Rightarrow> v, w'))"

text \<open>
  \<^verbatim>\<open>next(item for item in rf_templates if item["name"] == rf_template_name)\<close>: the first
  item whose name is equal, \<^verbatim>\<open>StopIteration\<close> when the items run out, and whatever
  \<^verbatim>\<open>item["name"]\<close> raises on the way.  The name comes from a CSV cell, and for a cell
  Python's \<^verbatim>\<open>==\<close> on a JSON value is equality of the two values.
\<close>

fun next_match :: "pyval \<Rightarrow> pyval list \<Rightarrow> exn + pyval" where
  "next_match name [] = Inl StopIteration"
| "next_match name (item # items) =
     (case getitem item ''name'' of
        Inl e \<Rightarrow> Inl e
      | Inr v \<Rightarrow> if v = name then Inr item else next_match name items)"

definition get_rftemplate_by_name ::
  "env \<Rightarrow> mist_api \<Rightarrow> cell \<Rightarrow> event list \<Rightarrow> (exn + pyval) \<times> event list" where
  "get_rftemplate_by_name E api rf_template_name w =
     (case get_rf_templates E api w of
        (rf_templates, w') \<Rightarrow>
          (case py_iter rf_templates of
             Inl e \<Rightarrow> Inl e
           | Inr items \<Rightarrow> next_match (of_cell rf_template_name) items,
           w'))"

definition create_site :: "env \<Rightarrow> mist_api \<Rightarrow> body \<Rightarrow> event list \<Rightarrow> response option \<times> event list" where
  "create_site E api b w = http_post E api (''/api/v1/orgs/'' @ org api @ ''/sites'') b w"

section \<open>The two Google lookups\<close>

definition get_google_timezone :: "env \<Rightarrow> pyval \<Rightarrow> pyval \<Rightarrow> event list \<Rightarrow> pyval \<times> event list" where
  "get_google_timezone E lat lng w =
     (case timezone_get E w lat lng of
        Inl e \<Rightarrow> PNone
      | Inr r \<Rightarrow>
          (case json r of
             Inl e \<Rightarrow> PNone
           | Inr data \<Rightarrow>
               (case getitem data ''timeZoneId'' of Inl e \<Rightarrow> PNone | Inr results \<Rightarrow> results)),
      w @ [TimezoneGet lat lng])"

definition get_google_geoinfo :: "env \<Rightarrow> cell \<Rightarrow> event list \<Rightarrow> body option \<times> event list" where
  "get_google_geoinfo E addr w =
     (case geocoder_google E w addr of
        Inl e \<Rightarrow> None
      | Inr ga \<Rightarrow>
          Some [(''address'', g_address ga),
                (''latlng'', PDict [(''lat'', g_lat ga), (''lng'', g_lng ga)]),
                (''country_code'', g_country ga)],
      w @ [Geocode addr])"

section \<open>The orchestrator: \<^verbatim>\<open>main\<close>\<close>

text \<open>
  What \<^verbatim>\<open>main\<close> holds while it runs: the two outcome lists and the log of the calls
  made so far.  Console output is not modelled.
\<close>

record run_state =
  successful_sites :: "body list"
  failed_sites :: "body list"
  world :: "event list"

record argv =
  mist_api_key :: string
  mist_org :: string
  mist_europe :: "string option"

text \<open>
  Lines 220 and 221: the template id is looked up and stored only for a template name
  other than the empty string.
\<close>

definition template_step ::
  "env \<Rightarrow> mist_api \<Rightarrow> csv_row \<Rightarrow> body \<Rightarrow> event list \<Rightarrow> (exn + body) \<times> event list" where
  "template_step E api site b w =
     (case row_get site ''rf_template_name'' of
        Inl e \<Rightarrow> (Inl e, w)
      | Inr tn \<Rightarrow>
          if tn \<noteq> CStr '''' then
            (case get_rftemplate_by_name E api tn w of
               (Inl e, w') \<Rightarrow> (Inl e, w')
             | (Inr t, w') \<Rightarrow>
                 (case getitem t ''id'' of
                    Inl e \<Rightarrow> (Inl e, w')
                  | Inr i \<Rightarrow> (Inr (dict_set ''rftemplate_id'' i b), w')))
          else (Inr b, w))"

text \<open>
  Lines 223 to 227: one POST, then the body goes to one of the two lists;
  \<^verbatim>\<open>results.status_code\<close> raises \<^verbatim>\<open>AttributeError\<close> when \<^verbatim>\<open>create_site\<close> returned
  \<^verbatim>\<open>None\<close>.
\<close>

definition submit_step :: "env \<Rightarrow> mist_api \<Rightarrow> body \<Rightarrow> run_state \<Rightarrow> exn option \<times> run_state" where
  "submit_step E api b st =
     (case create_site E api b (world st) of
        (None, w') \<Rightarrow> (Some AttributeError, st\<lparr>world := w'\<rparr>)
      | (Some results, w') \<Rightarrow>
          if status_code results = 200
          then (None, st\<lparr>successful_sites := successful_sites st @ [b], world := w'\<rparr>)
          else (None, st\<lparr>failed_sites := failed_sites st @ [b], world := w'\<rparr>))"

text \<open>
  The body of the \<^verbatim>\<open>for\<close> loop, lines 217 to 227, for one row.  The result is the
  exception that leaves the loop body, if any.  In line 218 the right-hand side
  \<^verbatim>\<open>site['site_name']\<close> is evaluated before the store into \<^verbatim>\<open>body\<close>, which raises
  \<^verbatim>\<open>TypeError\<close> when \<^verbatim>\<open>body\<close> is \<^verbatim>\<open>None\<close>.
\<close>

definition loop_body :: "env \<Rightarrow> mist_api \<Rightarrow> csv_row \<Rightarrow> run_state \<Rightarrow> exn option \<times> run_state" where
  "loop_body E api site st =
     (case row_get site ''site_address'' of
        Inl e \<Rightarrow> (Some e, st)
      | Inr addr \<Rightarrow>
     (case get_google_geoinfo E addr (world st) of (geo, w1) \<Rightarrow>
     (case row_get site ''site_name'' of
        Inl e \<Rightarrow> (Some e, st\<lparr>world := w1\<rparr>)
      | Inr nm \<Rightarrow>
     (case geo of
        None \<Rightarrow> (Some TypeError, st\<lparr>world := w1\<rparr>)
      | Some b0 \<Rightarrow>
     (let b1 = dict_set ''name'' (of_cell nm) b0 in
     (case getitem (PDict b1) ''latlng'' of
        Inl e \<Rightarrow> (Some e, st\<lparr>world := w1\<rparr>)
      | Inr latlng \<Rightarrow>
     (case getitem latlng ''lat'' of
        Inl e \<Rightarrow> (Some e, st\<lparr>world := w1\<rparr>)
      | Inr lat \<Rightarrow>
     (case getitem latlng ''lng'' of
        Inl e \<Rightarrow> (Some e, st\<lparr>world := w1\<rparr>)
      | Inr lng \<Rightarrow>
     (case get_google_timezone E lat lng w1 of (tz, w2) \<Rightarrow>
     (let b2 = dict_set ''timezone'' tz b1 in
     (case template_step E api site b2 w2 of
        (Inl e, w3) \<Rightarrow> (Some e, st\<lparr>world := w3\<rparr>)
      | (Inr b3, w3) \<Rightarrow> submit_step E api b3 (st\<lparr>world := w3\<rparr>))))))))))))"

text \<open>The \<^verbatim>\<open>for\<close> loop: an exception that leaves the body leaves the loop.\<close>

fun for_sites :: "env \<Rightarrow> mist_api \<Rightarrow> csv_row list \<Rightarrow> run_state \<Rightarrow> exn option \<times> run_state" where
  "for_sites E api [] st = (None, st)"
| "for_sites E api (site # site_data) st =
     (case loop_body E api site st of
        (Some e, st') \<Rightarrow> (Some e, st')
      | (None, st') \<Rightarrow> for_sites E api site_data st')"

text \<open>
  Lines 198 to 208 of \<^verbatim>\<open>main\<close>: the host is chosen by the presence of the
  \<^verbatim>\<open>--EU\<close> flag, and the connector is built from the host, the organisation and the key.
\<close>

definition select_host :: "argv \<Rightarrow> string" where
  "select_host args = (if mist_europe args \<noteq> None then ''api.eu.mist.com'' else ''api.mist.com'')"

definition mist_connector :: "argv \<Rightarrow> mist_api" where
  "mist_connector args = MistAPIToken (select_host args) (mist_org args) (mist_api_key args)"

text \<open>
  \<^verbatim>\<open>main\<close>.  \<^verbatim>\<open>verify_self\<close> catches every exception itself, so the \<^verbatim>\<open>try\<close> around
  its call never fires.  An exception of \<^verbatim>\<open>read_csv\<close> or of the loop leaves \<^verbatim>\<open>main\<close>.
\<close>

definition main :: "env \<Rightarrow> argv \<Rightarrow> exn option \<times> run_state" where
  "main E args =
     (let st0 = \<lparr>successful_sites = [], failed_sites = [], world = []\<rparr>
      in case read_csv E ''sites.csv'' of
           Inl e \<Rightarrow> (Some e, st0)
         | Inr site_data \<Rightarrow>
             (case verify_self E (mist_connector args) (world st0) of
                (api_verify, w1) \<Rightarrow>
                  if truthy api_verify
                  then for_sites E (mist_connector args) site_data (st0\<lparr>world := w1\<rparr>)
                  else (None, st0\<lparr>world := w1\<rparr>)))"

section \<open>Observations on a run\<close>

text \<open>
  The URL and the headers of the one POST the script makes, the events a step added to
  the log, and the two kinds of HTTP event.
\<close>

definition sites_url :: "mist_api \<Rightarrow> string" where
  "sites_url api = ''https://'' @ host api @ ''/api/v1/orgs/'' @ org api @ ''/sites''"

definition request_headers :: "mist_api \<Rightarrow> headers" where
  "request_headers api = dict_of_pairs [(''content-type'', ''application/json'')] (header api)"

definition new_events :: "run_state \<Rightarrow> run_state \<Rightarrow> event list" where
  "new_events st st' = drop (length (world st)) (world st')"

fun is_http_get :: "event \<Rightarrow> bool" where
  "is_http_get (HttpGet url h) = True"
| "is_http_get _ = False"

fun is_http_post :: "event \<Rightarrow> bool" where
  "is_http_post (HttpPost url h b) = True"
| "is_http_post _ = False"

text \<open>
  The body as it stands after line 219: the three entries of \<^verbatim>\<open>get_google_geoinfo\<close>,
  then \<^verbatim>\<open>name\<close>, then \<^verbatim>\<open>timezone\<close>.
\<close>

definition geo_body :: "gaddr \<Rightarrow> cell \<Rightarrow> pyval \<Rightarrow> body" where
  "geo_body ga nm tz =
     [(''address'', g_address ga),
      (''latlng'', PDict [(''lat'', g_lat ga), (''lng'', g_lng ga)]),
      (''country_code'', g_country ga),
      (''name'', of_cell nm),
      (''timezone'', tz)]"

section \<open>Sample inputs\<close>

definition resp :: "int \<Rightarrow> pyval \<Rightarrow> response" where
  "resp code v = \<lparr>status_code = code, json = Inr v\<rparr>"

definition sample_templates :: pyval where
  "sample_templates =
     PList [PDict [(''name'', PStr ''Corp''), (''id'', PStr ''t-1'')],
            PDict [(''name'', PStr ''Branch''), (''id'', PStr ''t-2'')]]"

definition sample_gaddr :: gaddr where
  "sample_gaddr =
     \<lparr>g_address = PStr ''1 Infinite Loop, Cupertino, CA 95014, USA'',
      g_lat = PFloat 37.33, g_lng = PFloat (- 122.03), g_country = PStr ''US''\<rparr>"

text \<open>
  A world in which everything answers: the identity check with 200, the template
  listing with two templates, the geocoder and the timezone service with Cupertino, and
  the platform with 200 for the site named HQ and 400 for any other.
\<close>

definition sample_env :: "string list list \<Rightarrow> env" where
  "sample_env table =
     \<lparr>open_csv = (\<lambda>filename. Inr table),
      requests_get = (\<lambda>w url h.
        if url = ''https://api.mist.com/api/v1/self'' then Inr (resp 200 (PDict []))
        else Inr (resp 200 sample_templates)),
      requests_post = (\<lambda>w url h b.
        Inr (resp (if map_of b ''name'' = Some (PStr ''HQ'') then 200 else 400) (PDict []))),
      geocoder_google = (\<lambda>w a. Inr sample_gaddr),
      timezone_get = (\<lambda>w la lo.
        Inr (resp 200 (PDict [(''timeZoneId'', PStr ''America/Los_Angeles'')])))\<rparr>"

definition sample_args :: argv where
  "sample_args = \<lparr>mist_api_key = ''key1'', mist_org = ''org1'', mist_europe = None\<rparr>"

definition sample_api :: mist_api where
  "sample_api = MistAPIToken ''api.mist.com'' ''org1'' ''key1''"

definition start_state :: run_state where
  "start_state = \<lparr>successful_sites = [], failed_sites = [], world = []\<rparr>"

definition sample_table :: "string list list" where
  "sample_table =
     [[''site_name'', ''site_address'', ''site_groups'', ''rf_template_name''],
      [''HQ'', ''1 Infinite Loop, Cupertino, CA'', '''', ''''],
      [''Lab'', ''2 Main St, Springfield'', '''', ''Branch'']]"

text \<open>The file with the header that the comment at the top of the script documents.\<close>

definition documented_table :: "string list list" where
  "documented_table =
     [[''site_name'', ''site_address'', ''site_groups'', ''rf_template_id''],
      [''HQ'', ''1 Infinite Loop, Cupertino, CA'', '''', '''']]"

definition hq_row :: csv_row where
  "hq_row =
     [(Some ''site_name'', CStr ''HQ''),
      (Some ''site_address'', CStr ''1 Infinite Loop, Cupertino, CA''),
      (Some ''site_groups'', CStr ''''),
      (Some ''rf_template_name'', CStr '''')]"

definition lab_row :: csv_row where
  "lab_row =
     [(Some ''site_name'', CStr ''Lab''),
      (Some ''site_address'', CStr ''2 Main St, Springfield''),
      (Some ''site_groups'', CStr ''''),
      (Some ''rf_template_name'', CStr ''Branch'')]"

definition hq_row_documented :: csv_row where
  "hq_row_documented =
     [(Some ''site_name'', CStr ''HQ''),
      (Some ''site_address'', CStr ''1 Infinite Loop, Cupertino, CA''),
      (Some ''site_groups'', CStr ''''),
      (Some ''rf_template_id'', CStr '''')]"

definition hq_body :: body where
  "hq_body =
     [(''address'', PStr ''1 Infinite Loop, Cupertino, CA 95014, USA''),
      (''latlng'', PDict [(''lat'', PFloat 37.33), (''lng'', PFloat (- 122.03))]),
      (''country_code'', PStr ''US''),
      (''name'', PStr ''HQ''),
      (''timezone'', PStr ''America/Los_Angeles'')]"

definition lab_body :: body where
  "lab_body =
     [(''address'', PStr ''1 Infinite Loop, Cupertino, CA 95014, USA''),
      (''latlng'', PDict [(''lat'', PFloat 37.33), (''lng'', PFloat (- 122.03))]),
      (''country_code'', PStr ''US''),
      (''name'', PStr ''Lab''),
      (''timezone'', PStr ''America/Los_Angeles''),
      (''rftemplate_id'', PStr ''t-2'')]"

text \<open>The state in which the loop over the two rows of the sample file ends.\<close>

definition sample_final :: run_state where
  "sample_final =
     \<lparr>successful_sites = [hq_body],
      failed_sites = [lab_body],
      world =
        [Geocode (CStr ''1 Infinite Loop, Cupertino, CA''),
         TimezoneGet (PFloat 37.33) (PFloat (- 122.03)),
         HttpPost ''https://api.mist.com/api/v1/orgs/org1/sites''
           [(''content-type'', ''application/json''), (''Authorization'', ''Token key1'')]
           hq_body,
         Geocode (CStr ''2 Main St, Springfield''),
         TimezoneGet (PFloat 37.33) (PFloat (- 122.03)),
         HttpGet ''https://api.mist.com/api/v1/orgs/org1/rftemplates''
           [(''content-type'', ''application/json''), (''Authorization'', ''Token key1'')],
         HttpPost ''https://api.mist.com/api/v1/orgs/org1/sites''
           [(''content-type'', ''application/json''), (''Authorization'', ''Token key1'')]
           lab_body]\<rparr>"

text \<open>A row that asks for a template the platform does not list.\<close>

definition guest_row :: csv_row where
  "guest_row =
     [(Some ''site_name'', CStr ''Annex''),
      (Some ''site_address'', CStr ''3 Side St, Springfield''),
      (Some ''site_groups'', CStr ''''),
      (Some ''rf_template_name'', CStr ''Guest'')]"

text \<open>A file whose header has no template column at all.\<close>

definition short_table :: "string list list" where
  "short_table =
     [[''site_name'', ''site_address'', ''site_groups''],
      [''HQ'', ''1 Infinite Loop, Cupertino, CA'', '''']]"

definition short_row :: csv_row where
  "short_row =
     [(Some ''site_name'', CStr ''HQ''),
      (Some ''site_address'', CStr ''1 Infinite Loop, Cupertino, CA''),
      (Some ''site_groups'', CStr '''')]"

text \<open>Worlds in which one service is down, or the token is refused.\<close>

definition env_geocoder_down :: env where
  "env_geocoder_down =
     (sample_env sample_table)\<lparr>geocoder_google := (\<lambda>w a. Inl (External ''geocoder unavailable''))\<rparr>"

definition env_timezone_down :: env where
  "env_timezone_down =
     (sample_env sample_table)\<lparr>timezone_get := (\<lambda>w la lo. Inl (External ''timezone unavailable''))\<rparr>"

definition env_bad_token :: env where
  "env_bad_token =
     (sample_env sample_table)\<lparr>requests_get := (\<lambda>w url h. Inr (resp 401 (PDict [])))\<rparr>"

text \<open>A platform that lists two templates under the same name.\<close>

definition twin_templates :: "pyval list" where
  "twin_templates =
     [PDict [(''name'', PStr ''Corp''), (''id'', PStr ''t-1'')],
      PDict [(''name'', PStr ''Corp''), (''id'', PStr ''t-9'')]]"

definition env_twins :: env where
  "env_twins =
     (sample_env sample_table)\<lparr>requests_get := (\<lambda>w url h. Inr (resp 200 (PList twin_templates)))\<rparr>"

section \<open>Facts about the model\<close>

lemmas model_defs =
  loop_body_def template_step_def submit_step_def create_site_def http_post_def http_get_def
  get_google_geoinfo_def get_google_timezone_def get_rftemplate_by_name_def get_rf_templates_def
  verify_self_def row_get_def dict_of_pairs_def MistAPIToken_def Let_def

lemmas sample_defs =
  sample_env_def sample_api_def sample_args_def sample_gaddr_def sample_templates_def resp_def
  start_state_def hq_row_def lab_row_def hq_row_documented_def guest_row_def hq_body_def
  lab_body_def

lemma map_of_dict_set: "map_of (dict_set k v d) k' = (if k' = k then Some v else map_of d k')"
  by (induction d) auto

subsection \<open>The stages of the loop body\<close>

lemma submit_step_None:
  assumes "submit_step E api b st = (None, st')"
  shows "(successful_sites st' = successful_sites st @ [b] \<and> failed_sites st' = failed_sites st)
       \<or> (successful_sites st' = successful_sites st \<and> failed_sites st' = failed_sites st @ [b])"
  using assms by (auto simp: submit_step_def split: prod.splits option.splits if_splits)

lemma world_submit_step:
  "world (snd (submit_step E api b st)) = world st @ [HttpPost (sites_url api) (request_headers api) b]"
  by (simp add: submit_step_def create_site_def http_post_def sites_url_def request_headers_def Let_def
           split: sum.splits)

lemma submit_step_response:
  "submit_step E api b st =
     (case requests_post E (world st) (sites_url api) (request_headers api) b of
        Inl e \<Rightarrow> (Some AttributeError,
                  st\<lparr>world := world st @ [HttpPost (sites_url api) (request_headers api) b]\<rparr>)
      | Inr r \<Rightarrow>
          if status_code r = 200
          then (None, st\<lparr>successful_sites := successful_sites st @ [b],
                         world := world st @ [HttpPost (sites_url api) (request_headers api) b]\<rparr>)
          else (None, st\<lparr>failed_sites := failed_sites st @ [b],
                         world := world st @ [HttpPost (sites_url api) (request_headers api) b]\<rparr>))"
  by (simp add: submit_step_def create_site_def http_post_def sites_url_def request_headers_def Let_def
           split: sum.splits)

lemma template_step_Inr:
  assumes "template_step E api site b w = (Inr b', w')"
  shows "b' = b \<or> (\<exists>i. b' = dict_set ''rftemplate_id'' i b)"
  using assms by (auto simp: template_step_def split: sum.splits prod.splits if_splits)

lemma template_step_empty:
  "row_get site ''rf_template_name'' = Inr (CStr '''') \<Longrightarrow> template_step E api site b w = (Inr b, w)"
  by (simp add: template_step_def)


lemma world_template_step:
  "snd (template_step E api site b w) = w \<or>
   snd (template_step E api site b w) =
     w @ [HttpGet (''https://'' @ host api @ ''/api/v1/orgs/'' @ org api @ ''/rftemplates'')
            (request_headers api)]"
  by (simp add: template_step_def get_rftemplate_by_name_def get_rf_templates_def http_get_def
        request_headers_def Let_def split: sum.splits prod.splits option.splits)

lemma loop_body_early:
  "row_get site ''site_address'' = Inl e \<Longrightarrow> loop_body E api site st = (Some e, st)"
  "row_get site ''site_address'' = Inr addr \<Longrightarrow> row_get site ''site_name'' = Inl e \<Longrightarrow>
     loop_body E api site st = (Some e, st\<lparr>world := world st @ [Geocode addr]\<rparr>)"
  by (simp_all add: loop_body_def get_google_geoinfo_def split: sum.splits)

lemma loop_body_not_geocoded:
  assumes "row_get site ''site_address'' = Inr addr"
      and "row_get site ''site_name'' = Inr nm"
      and "geocoder_google E (world st) addr = Inl e"
  shows "loop_body E api site st = (Some TypeError, st\<lparr>world := world st @ [Geocode addr]\<rparr>)"
  using assms by (simp add: loop_body_def get_google_geoinfo_def)

lemma loop_body_geocoded:
  assumes "row_get site ''site_address'' = Inr addr"
      and "row_get site ''site_name'' = Inr nm"
      and "geocoder_google E (world st) addr = Inr ga"
  shows "loop_body E api site st =
     (case template_step E api site
             (geo_body ga nm (fst (get_google_timezone E (g_lat ga) (g_lng ga) (world st @ [Geocode addr]))))
             (world st @ [Geocode addr, TimezoneGet (g_lat ga) (g_lng ga)]) of
        (Inl e, w3) \<Rightarrow> (Some e, st\<lparr>world := w3\<rparr>)
      | (Inr b3, w3) \<Rightarrow> submit_step E api b3 (st\<lparr>world := w3\<rparr>))"
  using assms
  by (simp add: loop_body_def get_google_geoinfo_def get_google_timezone_def geo_body_def Let_def)

lemma loop_body_None:
  assumes "loop_body E api site st = (None, st')"
  shows "\<exists>b. map_of b ''name'' = map_option of_cell (map_of site (Some ''site_name''))
      \<and> ((successful_sites st' = successful_sites st @ [b] \<and> failed_sites st' = failed_sites st)
       \<or> (successful_sites st' = successful_sites st \<and> failed_sites st' = failed_sites st @ [b]))"
  using assms
  apply (simp add: loop_body_def row_get_def Let_def split: sum.splits prod.splits option.splits)
  apply (auto dest!: template_step_Inr submit_step_None simp: map_of_dict_set)
  done

lemma world_get_rf_templates:
  "snd (get_rf_templates E api w) =
     w @ [HttpGet (''https://'' @ host api @ ''/api/v1/orgs/'' @ org api @ ''/rftemplates'')
            (request_headers api)]"
  by (simp add: get_rf_templates_def http_get_def request_headers_def Let_def split: sum.splits)

lemma get_rftemplate_by_name_list:
  assumes "fst (get_rf_templates E api w) = PList items"
  shows "get_rftemplate_by_name E api tn w =
           (next_match (of_cell tn) items, snd (get_rf_templates E api w))"
  using assms by (cases "get_rf_templates E api w") (simp add: get_rftemplate_by_name_def)

lemma template_step_keeps:
  assumes "template_step E api site b w = (Inr b', w')"
      and "k \<noteq> ''rftemplate_id''"
  shows "map_of b' k = map_of b k"
  using template_step_Inr [OF assms(1)] assms(2) by (auto simp: map_of_dict_set)

subsection \<open>The sample world\<close>

lemma start_state_sel:
  "successful_sites start_state = []" "failed_sites start_state = []" "world start_state = []"
  by (simp_all add: start_state_def)

lemma loop_body_hq:
  "loop_body (sample_env t) sample_api hq_row start_state =
     (None, \<lparr>successful_sites = [hq_body], failed_sites = [],
        world = [Geocode (CStr ''1 Infinite Loop, Cupertino, CA''),
                 TimezoneGet (PFloat 37.33) (PFloat (- 122.03)),
                 HttpPost ''https://api.mist.com/api/v1/orgs/org1/sites''
                   [(''content-type'', ''application/json''), (''Authorization'', ''Token key1'')]
                   hq_body]\<rparr>)"
  by (simp add: model_defs sample_defs)

lemma DictReader_sample: "DictReader sample_table = [hq_row, lab_row]"
  by (simp add: DictReader_def sample_table_def dict_row_def dict_of_pairs_def hq_row_def lab_row_def)

lemma DictReader_documented: "DictReader documented_table = [hq_row_documented]"
  by (simp add: DictReader_def documented_table_def dict_row_def dict_of_pairs_def
        hq_row_documented_def)

lemma loop_body_lab:
  "world st = w \<Longrightarrow> loop_body (sample_env t) sample_api lab_row st =
     (None, st\<lparr>failed_sites := failed_sites st @ [lab_body],
        world := w @
                [Geocode (CStr ''2 Main St, Springfield''),
                 TimezoneGet (PFloat 37.33) (PFloat (- 122.03)),
                 HttpGet ''https://api.mist.com/api/v1/orgs/org1/rftemplates''
                   [(''content-type'', ''application/json''), (''Authorization'', ''Token key1'')],
                 HttpPost ''https://api.mist.com/api/v1/orgs/org1/sites''
                   [(''content-type'', ''application/json''), (''Authorization'', ''Token key1'')]
                   lab_body]\<rparr>)"
  by (simp add: model_defs sample_defs)

lemma for_sites_sample:
  "for_sites (sample_env t) sample_api [hq_row, lab_row] start_state = (None, sample_final)"
  by (simp add: loop_body_hq loop_body_lab sample_final_def)

lemma read_csv_sample:
  "read_csv (sample_env t) f = Inr (DictReader t)"
  "read_csv env_geocoder_down f = Inr [hq_row, lab_row]"
  "read_csv env_timezone_down f = Inr [hq_row, lab_row]"
  "read_csv env_bad_token f = Inr [hq_row, lab_row]"
  by (simp_all add: read_csv_def sample_env_def env_geocoder_down_def env_timezone_down_def
        env_bad_token_def DictReader_sample)

lemma mist_connector_sample: "mist_connector sample_args = sample_api"
  by (simp add: mist_connector_def select_host_def sample_args_def sample_api_def)

lemma verify_geocoder_down:
  "verify_self env_geocoder_down sample_api [] =
     (PBool True,
      [HttpGet ''https://api.mist.com/api/v1/self''
         [(''content-type'', ''application/json''), (''Authorization'', ''Token key1'')]])"
  by (simp add: env_geocoder_down_def model_defs sample_defs)

lemma loop_body_geocoder_down:
  "loop_body env_geocoder_down sample_api hq_row st =
     (Some TypeError, st\<lparr>world := world st @ [Geocode (CStr ''1 Infinite Loop, Cupertino, CA'')]\<rparr>)"
  by (simp add: env_geocoder_down_def model_defs sample_defs)

lemma main_geocoder_down:
  "main env_geocoder_down sample_args =
     (Some TypeError,
      \<lparr>successful_sites = [], failed_sites = [],
       world = [HttpGet ''https://api.mist.com/api/v1/self''
                  [(''content-type'', ''application/json''), (''Authorization'', ''Token key1'')],
                Geocode (CStr ''1 Infinite Loop, Cupertino, CA'')]\<rparr>)"
  by (simp add: main_def read_csv_sample mist_connector_sample verify_geocoder_down
        loop_body_geocoder_down)

lemma verify_sample:
  "verify_self (sample_env t) sample_api [] =
     (PBool True,
      [HttpGet ''https://api.mist.com/api/v1/self''
         [(''content-type'', ''application/json''), (''Authorization'', ''Token key1'')]])"
  by (simp add: model_defs sample_defs)

lemma loop_body_documented:
  "loop_body (sample_env t) sample_api hq_row_documented st =
     (Some KeyError,
      st\<lparr>world := world st @ [Geocode (CStr ''1 Infinite Loop, Cupertino, CA''),
                              TimezoneGet (PFloat 37.33) (PFloat (- 122.03))]\<rparr>)"
  by (simp add: model_defs sample_defs)

lemma main_documented:
  "main (sample_env documented_table) sample_args =
     (Some KeyError,
      \<lparr>successful_sites = [], failed_sites = [],
       world = [HttpGet ''https://api.mist.com/api/v1/self''
                  [(''content-type'', ''application/json''), (''Authorization'', ''Token key1'')],
                Geocode (CStr ''1 Infinite Loop, Cupertino, CA''),
                TimezoneGet (PFloat 37.33) (PFloat (- 122.03))]\<rparr>)"
  by (simp add: main_def read_csv_sample DictReader_documented mist_connector_sample
        verify_sample loop_body_documented)

lemma get_rf_templates_sample:
  "get_rf_templates (sample_env t) sample_api w =
     (sample_templates,
      w @ [HttpGet ''https://api.mist.com/api/v1/orgs/org1/rftemplates''
             [(''content-type'', ''application/json''), (''Authorization'', ''Token key1'')]])"
  "get_rf_templates env_twins sample_api w =
     (PList twin_templates,
      w @ [HttpGet ''https://api.mist.com/api/v1/orgs/org1/rftemplates''
             [(''content-type'', ''application/json''), (''Authorization'', ''Token key1'')]])"
  by (simp_all add: get_rf_templates_def http_get_def dict_of_pairs_def MistAPIToken_def Let_def
        sample_env_def env_twins_def sample_api_def resp_def)

section \<open>One outcome for each row of a completed loop\<close>

text \<open>
  Claim C1, as amended.  When the loop over the rows ends without an exception, each row
  has added exactly one body to exactly one of the two lists: the two lists together
  have grown by the number of rows, and the names in the bodies added are the
  \<^verbatim>\<open>site_name\<close> cells of the rows, counted with multiplicity.
\<close>

theorem completed_loop_one_outcome_per_row:
  assumes "for_sites E api site_data st = (None, st')"
  shows "length (successful_sites st') + length (failed_sites st')
           = length (successful_sites st) + length (failed_sites st) + length site_data
       \<and> mset (map (\<lambda>b. map_of b ''name'') (successful_sites st' @ failed_sites st'))
           = mset (map (\<lambda>b. map_of b ''name'') (successful_sites st @ failed_sites st))
             + mset (map (\<lambda>site. map_option of_cell (map_of site (Some ''site_name''))) site_data)"
  using assms
proof (induction site_data arbitrary: st)
  case Nil
  then show ?case by simp
next
  case (Cons site site_data)
  from Cons.prems obtain st1 where
    step: "loop_body E api site st = (None, st1)" and
    rest: "for_sites E api site_data st1 = (None, st')"
    by (auto split: prod.splits option.splits)
  from loop_body_None [OF step] obtain b where
    nm: "map_of b ''name'' = map_option of_cell (map_of site (Some ''site_name''))" and
    app: "(successful_sites st1 = successful_sites st @ [b] \<and> failed_sites st1 = failed_sites st)
        \<or> (successful_sites st1 = successful_sites st \<and> failed_sites st1 = failed_sites st @ [b])"
    by blast
  from Cons.IH [OF rest] app nm show ?case
    by auto
qed

theorem completed_loop_one_outcome_per_row_witness:
  "for_sites (sample_env sample_table) sample_api [hq_row, lab_row] start_state
     = (None, sample_final)
   \<and> successful_sites sample_final = [hq_body]
   \<and> failed_sites sample_final = [lab_body]
   \<and> length (successful_sites sample_final) + length (failed_sites sample_final)
       = length (successful_sites start_state) + length (failed_sites start_state)
         + length [hq_row, lab_row]"
proof -
  have run: "for_sites (sample_env sample_table) sample_api [hq_row, lab_row] start_state
     = (None, sample_final)"
    by (rule for_sites_sample)
  have sel: "successful_sites sample_final = [hq_body]" "failed_sites sample_final = [lab_body]"
    by (simp_all add: sample_final_def)
  from run sel completed_loop_one_outcome_per_row [OF run, THEN conjunct1] show ?thesis
    by blast
qed

text \<open>
  The claim as the specification states it fails: with the geocoder down, a run over the
  two valid rows of the sample file ends in a \<^verbatim>\<open>TypeError\<close> at the first row, with both
  lists empty.
\<close>

theorem one_outcome_per_row_counterexample:
  "read_csv env_geocoder_down ''sites.csv'' = Inr [hq_row, lab_row]
   \<and> fst (verify_self env_geocoder_down (mist_connector sample_args) []) = PBool True
   \<and> fst (main env_geocoder_down sample_args) = Some TypeError
   \<and> successful_sites (snd (main env_geocoder_down sample_args)) = []
   \<and> failed_sites (snd (main env_geocoder_down sample_args)) = []
   \<and> length (successful_sites (snd (main env_geocoder_down sample_args)))
       + length (failed_sites (snd (main env_geocoder_down sample_args)))
       \<noteq> length [hq_row, lab_row]"
  by (simp add: main_geocoder_down read_csv_sample verify_geocoder_down mist_connector_sample)

section \<open>A failed credential check\<close>

lemma verify_self_values:
  "fst (verify_self E api w) = PBool True \<or> fst (verify_self E api w) = PBool False
   \<or> fst (verify_self E api w) = PNone"
  by (simp add: verify_self_def http_get_def Let_def split: sum.splits)

lemma world_verify_self:
  "snd (verify_self E api w) = w @ [HttpGet (''https://'' @ host api @ ''/api/v1/self'') (request_headers api)]"
  by (simp add: verify_self_def http_get_def request_headers_def Let_def split: sum.splits)

text \<open>
  Claim C2.  When \<^verbatim>\<open>verify_self\<close> does not return \<^verbatim>\<open>True\<close> (it returns \<^verbatim>\<open>False\<close> or
  \<^verbatim>\<open>None\<close>), \<^verbatim>\<open>main\<close> makes no POST and both outcome lists stay empty, whatever the
  input file holds.  No row is processed at all: the only call that can have left the
  process is the identity check itself.
\<close>

theorem unverified_run_creates_no_site:
  assumes "fst (verify_self E (mist_connector args) []) \<noteq> PBool True"
  shows "successful_sites (snd (main E args)) = []
       \<and> failed_sites (snd (main E args)) = []
       \<and> filter is_http_post (world (snd (main E args))) = []
       \<and> (world (snd (main E args)) = []
          \<or> world (snd (main E args)) =
               [HttpGet (''https://'' @ host (mist_connector args) @ ''/api/v1/self'')
                  (request_headers (mist_connector args))])"
proof -
  from assms verify_self_values [of E "mist_connector args" "[]"]
  have "\<not> truthy (fst (verify_self E (mist_connector args) []))"
    by auto
  moreover have "snd (verify_self E (mist_connector args) []) =
      [HttpGet (''https://'' @ host (mist_connector args) @ ''/api/v1/self'')
         (request_headers (mist_connector args))]"
    by (simp add: world_verify_self)
  ultimately show ?thesis
    by (auto simp: main_def Let_def split: sum.splits prod.splits)
qed

theorem unverified_run_creates_no_site_witness:
  "fst (verify_self env_bad_token (mist_connector sample_args) []) = PNone
   \<and> read_csv env_bad_token ''sites.csv'' = Inr [hq_row, lab_row]
   \<and> successful_sites (snd (main env_bad_token sample_args)) = []
   \<and> failed_sites (snd (main env_bad_token sample_args)) = []
   \<and> filter is_http_post (world (snd (main env_bad_token sample_args))) = []"
proof -
  have v: "fst (verify_self env_bad_token (mist_connector sample_args) []) = PNone"
    by (simp add: mist_connector_sample env_bad_token_def model_defs sample_defs)
  then have "fst (verify_self env_bad_token (mist_connector sample_args) []) \<noteq> PBool True"
    by simp
  from unverified_run_creates_no_site [OF this] v show ?thesis
    by (simp add: read_csv_sample)
qed

section \<open>A geocoding failure stops the run\<close>

text \<open>
  Claim C7.  When \<^verbatim>\<open>get_google_geoinfo\<close> turns a geocoding failure into \<^verbatim>\<open>None\<close> for a
  row, the store into \<^verbatim>\<open>body\<close> in line 218 raises \<^verbatim>\<open>TypeError\<close>: the loop stops at that
  row, the remaining rows are never processed, and the row is added to neither list, so
  it is not routed to the failed sites.
\<close>

theorem geocode_failure_aborts_run:
  assumes "row_get site ''site_address'' = Inr addr"
      and "row_get site ''site_name'' = Inr nm"
      and "get_google_geoinfo E addr (world st) = (None, w1)"
  shows "for_sites E api (site # site_data) st = (Some TypeError, st\<lparr>world := w1\<rparr>)
       \<and> failed_sites (snd (for_sites E api (site # site_data) st)) = failed_sites st
       \<and> successful_sites (snd (for_sites E api (site # site_data) st)) = successful_sites st"
  using assms by (simp add: loop_body_def)

theorem geocode_failure_aborts_run_witness:
  "row_get hq_row ''site_address'' = Inr (CStr ''1 Infinite Loop, Cupertino, CA'')
   \<and> row_get hq_row ''site_name'' = Inr (CStr ''HQ'')
   \<and> get_google_geoinfo env_geocoder_down (CStr ''1 Infinite Loop, Cupertino, CA'') (world start_state)
       = (None, [Geocode (CStr ''1 Infinite Loop, Cupertino, CA'')])
   \<and> for_sites env_geocoder_down sample_api [hq_row, lab_row] start_state
       = (Some TypeError, start_state\<lparr>world := [Geocode (CStr ''1 Infinite Loop, Cupertino, CA'')]\<rparr>)"
proof -
  have a: "row_get hq_row ''site_address'' = Inr (CStr ''1 Infinite Loop, Cupertino, CA'')"
    and n: "row_get hq_row ''site_name'' = Inr (CStr ''HQ'')"
    by (simp_all add: row_get_def hq_row_def)
  have g: "get_google_geoinfo env_geocoder_down (CStr ''1 Infinite Loop, Cupertino, CA'') (world start_state)
       = (None, [Geocode (CStr ''1 Infinite Loop, Cupertino, CA'')])"
    by (simp add: get_google_geoinfo_def env_geocoder_down_def start_state_sel)
  from geocode_failure_aborts_run [OF a n g, THEN conjunct1] a n g show ?thesis
    by blast
qed

section \<open>Rows without a template name\<close>

text \<open>
  Claim C3.  For a row whose \<^verbatim>\<open>rf_template_name\<close> field is the empty string, the loop
  body makes no HTTP GET at all, so in particular no template listing is fetched for that
  row, and a body that it POSTs to the platform has no \<^verbatim>\<open>rftemplate_id\<close> key.
\<close>

theorem empty_template_name_skips_lookup:
  assumes "row_get site ''rf_template_name'' = Inr (CStr '''')"
  shows "filter is_http_get (new_events st (snd (loop_body E api site st))) = []
       \<and> (\<forall>url h b. HttpPost url h b \<in> set (new_events st (snd (loop_body E api site st)))
             \<longrightarrow> map_of b ''rftemplate_id'' = None)"
proof (cases "row_get site ''site_address''")
  case (Inl e)
  then show ?thesis by (simp add: loop_body_early new_events_def)
next
  case addr: (Inr addr)
  show ?thesis
  proof (cases "row_get site ''site_name''")
    case (Inl e)
    with addr show ?thesis by (simp add: loop_body_early new_events_def)
  next
    case nm: (Inr nm)
    show ?thesis
    proof (cases "geocoder_google E (world st) addr")
      case (Inl e)
      with addr nm show ?thesis by (simp add: loop_body_not_geocoded new_events_def)
    next
      case (Inr ga)
      with addr nm assms show ?thesis
        by (simp add: loop_body_geocoded template_step_empty new_events_def world_submit_step
              geo_body_def)
    qed
  qed
qed

theorem empty_template_name_skips_lookup_witness:
  "row_get hq_row ''rf_template_name'' = Inr (CStr '''')
   \<and> new_events start_state (snd (loop_body (sample_env sample_table) sample_api hq_row start_state))
       = [Geocode (CStr ''1 Infinite Loop, Cupertino, CA''),
          TimezoneGet (PFloat 37.33) (PFloat (- 122.03)),
          HttpPost ''https://api.mist.com/api/v1/orgs/org1/sites''
            [(''content-type'', ''application/json''), (''Authorization'', ''Token key1'')]
            hq_body]
   \<and> map_of hq_body ''rftemplate_id'' = None"
proof -
  have h: "row_get hq_row ''rf_template_name'' = Inr (CStr '''')"
    by (simp add: row_get_def hq_row_def)
  have ev: "new_events start_state (snd (loop_body (sample_env sample_table) sample_api hq_row start_state))
       = [Geocode (CStr ''1 Infinite Loop, Cupertino, CA''),
          TimezoneGet (PFloat 37.33) (PFloat (- 122.03)),
          HttpPost ''https://api.mist.com/api/v1/orgs/org1/sites''
            [(''content-type'', ''application/json''), (''Authorization'', ''Token key1'')]
            hq_body]"
    by (simp add: loop_body_hq new_events_def start_state_sel)
  from empty_template_name_skips_lookup [OF h, of start_state "sample_env sample_table" sample_api]
  have "map_of hq_body ''rftemplate_id'' = None"
    unfolding ev by simp
  with h ev show ?thesis by simp
qed

section \<open>Template lookup by name\<close>

lemma next_match_find:
  assumes "\<forall>item\<in>set items. \<exists>d v. item = PDict d \<and> map_of d ''name'' = Some v"
  shows "next_match name items =
           (case find (\<lambda>item. getitem item ''name'' = Inr name) items of
              None \<Rightarrow> Inl StopIteration
            | Some t \<Rightarrow> Inr t)"
  using assms by (induction items) auto

lemma next_match_none:
  assumes "\<forall>item\<in>set items. \<exists>d v. item = PDict d \<and> map_of d ''name'' = Some v \<and> v \<noteq> name"
  shows "next_match name items = Inl StopIteration"
  using assms by (induction items) auto

text \<open>
  Claim C5, as amended.  When the listing is a list of templates that each have a name,
  looking a name up returns the first template of the listing whose name is that very
  string (the comparison is equality of strings, so it is exact and case-sensitive), and
  raises \<^verbatim>\<open>StopIteration\<close> when there is none.  A name that several templates bear is
  not an error: the first of them is returned.
\<close>

theorem get_rftemplate_by_name_first_match:
  assumes "fst (get_rf_templates E api w) = PList items"
      and "\<forall>item\<in>set items. \<exists>d v. item = PDict d \<and> map_of d ''name'' = Some v"
  shows "fst (get_rftemplate_by_name E api (CStr n) w) =
           (case find (\<lambda>item. getitem item ''name'' = Inr (PStr n)) items of
              None \<Rightarrow> Inl StopIteration
            | Some t \<Rightarrow> Inr t)"
  using assms by (simp add: get_rftemplate_by_name_list next_match_find)

theorem get_rftemplate_by_name_first_match_witness:
  "fst (get_rf_templates (sample_env sample_table) sample_api []) = sample_templates
   \<and> fst (get_rftemplate_by_name (sample_env sample_table) sample_api (CStr ''Branch'') [])
       = Inr (PDict [(''name'', PStr ''Branch''), (''id'', PStr ''t-2'')])
   \<and> fst (get_rftemplate_by_name (sample_env sample_table) sample_api (CStr ''branch'') [])
       = Inl StopIteration"
proof -
  let ?items = "[PDict [(''name'', PStr ''Corp''), (''id'', PStr ''t-1'')],
                 PDict [(''name'', PStr ''Branch''), (''id'', PStr ''t-2'')]]"
  have l: "fst (get_rf_templates (sample_env sample_table) sample_api []) = PList ?items"
    by (simp add: get_rf_templates_sample sample_templates_def)
  have wf: "\<forall>item\<in>set ?items. \<exists>d v. item = PDict d \<and> map_of d ''name'' = Some v"
    by simp
  from get_rftemplate_by_name_first_match [OF l wf, of "''Branch''"]
       get_rftemplate_by_name_first_match [OF l wf, of "''branch''"] l
  show ?thesis
    by (simp add: sample_templates_def)
qed

text \<open>
  The claim as the specification states it fails for an ambiguous name: two templates
  are listed under the name Corp, and the lookup returns the first one without an error.
\<close>

theorem ambiguous_template_name_counterexample:
  "fst (get_rf_templates env_twins sample_api []) = PList twin_templates
   \<and> length (filter (\<lambda>item. getitem item ''name'' = Inr (PStr ''Corp'')) twin_templates) = 2
   \<and> fst (get_rftemplate_by_name env_twins sample_api (CStr ''Corp'') [])
       = Inr (PDict [(''name'', PStr ''Corp''), (''id'', PStr ''t-1'')])"
  by (simp add: get_rftemplate_by_name_def get_rf_templates_sample twin_templates_def)

section \<open>A template name that the platform does not list\<close>

lemma template_step_unknown:
  assumes "row_get site ''rf_template_name'' = Inr (CStr n)"
      and "n \<noteq> ''''"
      and "fst (get_rf_templates E api w) = PList items"
      and "\<forall>item\<in>set items. \<exists>d v. item = PDict d \<and> map_of d ''name'' = Some v \<and> v \<noteq> PStr n"
  shows "template_step E api site b w =
           (Inl StopIteration,
            w @ [HttpGet (''https://'' @ host api @ ''/api/v1/orgs/'' @ org api @ ''/rftemplates'')
                   (request_headers api)])"
proof -
  from assms(4) have "next_match (of_cell (CStr n)) items = Inl StopIteration"
    by (intro next_match_none) simp
  with assms(1,2,3) show ?thesis
    by (simp add: template_step_def get_rftemplate_by_name_list world_get_rf_templates)
qed

text \<open>
  Claim C4, as amended.  For a row whose template name is not empty and is borne by no
  template of the listing, the loop body raises an exception that nothing catches
  (\<^verbatim>\<open>StopIteration\<close> from the lookup; \<^verbatim>\<open>TypeError\<close> earlier when the geocoder gave
  nothing): the loop stops at that row, the row is added to neither list, and no POST is
  made for it.
\<close>

theorem unknown_template_name_aborts_run:
  assumes "row_get site ''site_address'' = Inr addr"
      and "row_get site ''site_name'' = Inr nm"
      and "row_get site ''rf_template_name'' = Inr (CStr n)"
      and "n \<noteq> ''''"
      and "\<And>w. \<exists>items. fst (get_rf_templates E api w) = PList items
             \<and> (\<forall>item\<in>set items. \<exists>d v. item = PDict d \<and> map_of d ''name'' = Some v \<and> v \<noteq> PStr n)"
  shows "fst (for_sites E api (site # site_data) st) =
           Some (case geocoder_google E (world st) addr of
                   Inl e \<Rightarrow> TypeError
                 | Inr ga \<Rightarrow> StopIteration)
       \<and> successful_sites (snd (for_sites E api (site # site_data) st)) = successful_sites st
       \<and> failed_sites (snd (for_sites E api (site # site_data) st)) = failed_sites st
       \<and> filter is_http_post (new_events st (snd (for_sites E api (site # site_data) st))) = []"
proof (cases "geocoder_google E (world st) addr")
  case (Inl e)
  with assms(1,2) show ?thesis
    by (simp add: loop_body_not_geocoded new_events_def)
next
  case (Inr ga)
  let ?w = "world st @ [Geocode addr, TimezoneGet (g_lat ga) (g_lng ga)]"
  from assms(5) [of ?w] obtain items where
    "fst (get_rf_templates E api ?w) = PList items" and
    "\<forall>item\<in>set items. \<exists>d v. item = PDict d \<and> map_of d ''name'' = Some v \<and> v \<noteq> PStr n"
    by blast
  from template_step_unknown [OF assms(3,4) this] Inr assms(1,2) show ?thesis
    by (simp add: loop_body_geocoded new_events_def)
qed

theorem unknown_template_name_aborts_run_witness:
  "row_get guest_row ''site_address'' = Inr (CStr ''3 Side St, Springfield'')
   \<and> row_get guest_row ''site_name'' = Inr (CStr ''Annex'')
   \<and> row_get guest_row ''rf_template_name'' = Inr (CStr ''Guest'')
   \<and> fst (for_sites (sample_env sample_table) sample_api [guest_row, hq_row] start_state)
       = Some StopIteration
   \<and> successful_sites (snd (for_sites (sample_env sample_table) sample_api [guest_row, hq_row] start_state)) = []
   \<and> failed_sites (snd (for_sites (sample_env sample_table) sample_api [guest_row, hq_row] start_state)) = []
   \<and> filter is_http_post
        (new_events start_state
           (snd (for_sites (sample_env sample_table) sample_api [guest_row, hq_row] start_state))) = []"
proof -
  have a: "row_get guest_row ''site_address'' = Inr (CStr ''3 Side St, Springfield'')"
    and n: "row_get guest_row ''site_name'' = Inr (CStr ''Annex'')"
    and t: "row_get guest_row ''rf_template_name'' = Inr (CStr ''Guest'')"
    by (simp_all add: row_get_def guest_row_def)
  have ne: "''Guest'' \<noteq> ''''"
    by simp
  have l: "\<exists>items. fst (get_rf_templates (sample_env sample_table) sample_api w) = PList items
             \<and> (\<forall>item\<in>set items. \<exists>d v. item = PDict d \<and> map_of d ''name'' = Some v \<and> v \<noteq> PStr ''Guest'')"
    for w
    by (simp add: get_rf_templates_sample sample_templates_def)
  have g: "geocoder_google (sample_env sample_table) w' a' = Inr sample_gaddr" for w' a'
    by (simp add: sample_env_def)
  from unknown_template_name_aborts_run [OF a n t ne l, of "[hq_row]" start_state]
  have "fst (for_sites (sample_env sample_table) sample_api [guest_row, hq_row] start_state)
       = Some StopIteration
   \<and> successful_sites (snd (for_sites (sample_env sample_table) sample_api [guest_row, hq_row] start_state)) = []
   \<and> failed_sites (snd (for_sites (sample_env sample_table) sample_api [guest_row, hq_row] start_state)) = []
   \<and> filter is_http_post
        (new_events start_state
           (snd (for_sites (sample_env sample_table) sample_api [guest_row, hq_row] start_state))) = []"
    by (simp only: g sum.case start_state_sel)
  with a n t show ?thesis
    by blast
qed

text \<open>
  The claim as the specification states it fails: the row that asks for the unlisted
  template Guest is not classified as failed.  The run stops there with
  \<^verbatim>\<open>StopIteration\<close>, the list of failed sites is empty, and the next row is never
  reached.
\<close>

theorem unknown_template_name_counterexample:
  "row_get guest_row ''rf_template_name'' = Inr (CStr ''Guest'')
   \<and> fst (get_rf_templates (sample_env sample_table) sample_api []) = sample_templates
   \<and> for_sites (sample_env sample_table) sample_api [guest_row, hq_row] start_state =
       (Some StopIteration,
        \<lparr>successful_sites = [], failed_sites = [],
         world = [Geocode (CStr ''3 Side St, Springfield''),
                  TimezoneGet (PFloat 37.33) (PFloat (- 122.03)),
                  HttpGet ''https://api.mist.com/api/v1/orgs/org1/rftemplates''
                    [(''content-type'', ''application/json''), (''Authorization'', ''Token key1'')]]\<rparr>)"
  by (simp add: model_defs sample_defs)

section \<open>The input loader checks no header\<close>

lemma keys_dict_set: "fst ` set (dict_set k v d) = insert k (fst ` set d)"
proof (induction d)
  case Nil
  show ?case by simp
next
  case (Cons p d)
  obtain k' v' where p: "p = (k', v')" by (cases p)
  show ?case
  proof (cases "k' = k")
    case True
    with p show ?thesis by simp
  next
    case False
    with p Cons.IH show ?thesis by (simp add: insert_commute)
  qed
qed

lemma keys_dict_of_pairs: "fst ` set (dict_of_pairs d ps) = fst ` set d \<union> fst ` set ps"
  unfolding dict_of_pairs_def
proof (induction ps arbitrary: d)
  case Nil
  then show ?case by simp
next
  case (Cons p ps)
  obtain k v where p: "p = (k, v)" by (cases p)
  from Cons.IH [of "dict_set k v d"] show ?case
    by (simp add: p keys_dict_set)
qed

lemma keys_dict_row:
  assumes "Some k \<in> fst ` set (dict_row fieldnames row)"
  shows "k \<in> set fieldnames"
proof -
  have "set (drop n fieldnames) \<subseteq> set fieldnames" for n
    by (rule set_drop_subset)
  moreover have "fst ` set (zip fieldnames row) \<subseteq> set fieldnames"
    by (auto dest: set_zip_leftD)
  ultimately show ?thesis
    using assms
    by (auto simp: dict_row_def Let_def keys_dict_set keys_dict_of_pairs image_image
          split: if_splits)
qed

lemma row_get_dict_row:
  assumes "k \<notin> set fieldnames"
  shows "row_get (dict_row fieldnames row) k = Inl KeyError"
proof -
  from assms keys_dict_row have "Some k \<notin> fst ` set (dict_row fieldnames row)"
    by blast
  then have "map_of (dict_row fieldnames row) (Some k) = None"
    by (simp add: map_of_eq_None_iff)
  then show ?thesis
    by (simp add: row_get_def)
qed

lemma DictReader_short: "DictReader short_table = [short_row]"
  by (simp add: DictReader_def short_table_def dict_row_def dict_of_pairs_def short_row_def)

text \<open>
  Claim C6, as amended.  \<^verbatim>\<open>read_csv\<close> checks no header.  For every file that opens and
  has a first line, whatever columns that line names, it returns a list of records, one
  for each data line that is not blank; a column that the header lacks is in none of the
  records, so that reading it from a record raises \<^verbatim>\<open>KeyError\<close>.
\<close>

theorem read_csv_accepts_any_header:
  assumes "open_csv E filename = Inr (fieldnames # rest)"
  shows "\<exists>site_data. read_csv E filename = Inr site_data
       \<and> length site_data = length (filter (\<lambda>row. row \<noteq> []) rest)
       \<and> (\<forall>site\<in>set site_data. \<forall>k. k \<notin> set fieldnames \<longrightarrow> row_get site k = Inl KeyError)"
  using assms by (auto simp: read_csv_def DictReader_def row_get_dict_row)

theorem read_csv_accepts_any_header_witness:
  "open_csv (sample_env short_table) ''sites.csv''
     = Inr ([''site_name'', ''site_address'', ''site_groups'']
            # [[''HQ'', ''1 Infinite Loop, Cupertino, CA'', '''']])
   \<and> read_csv (sample_env short_table) ''sites.csv'' = Inr [short_row]
   \<and> ''rf_template_name'' \<notin> set [''site_name'', ''site_address'', ''site_groups'']
   \<and> row_get short_row ''rf_template_name'' = Inl KeyError"
proof -
  have o: "open_csv (sample_env short_table) ''sites.csv''
     = Inr ([''site_name'', ''site_address'', ''site_groups'']
            # [[''HQ'', ''1 Infinite Loop, Cupertino, CA'', '''']])"
    by (simp add: sample_env_def short_table_def)
  have r: "read_csv (sample_env short_table) ''sites.csv'' = Inr [short_row]"
    by (simp add: read_csv_sample DictReader_short)
  have k: "''rf_template_name'' \<notin> set [''site_name'', ''site_address'', ''site_groups'']"
    by simp
  from read_csv_accepts_any_header [OF o] r k
  have "row_get short_row ''rf_template_name'' = Inl KeyError"
    by auto
  with o r k show ?thesis
    by blast
qed

text \<open>
  The claim as the specification states it fails: the header of this file has no
  template column under either name, and the loader returns its one record.
\<close>

theorem missing_column_counterexample:
  "open_csv (sample_env short_table) ''sites.csv'' = Inr short_table
   \<and> hd short_table = [''site_name'', ''site_address'', ''site_groups'']
   \<and> ''rf_template_name'' \<notin> set (hd short_table)
   \<and> ''rf_template_id'' \<notin> set (hd short_table)
   \<and> read_csv (sample_env short_table) ''sites.csv'' = Inr [short_row]"
  by (simp add: read_csv_sample DictReader_short) (simp add: sample_env_def short_table_def)

section \<open>The column that names the template\<close>






section \<open>The submission body\<close>

lemma posts_of_loop_body:
  assumes "row_get site ''site_address'' = Inr addr"
      and "row_get site ''site_name'' = Inr nm"
      and "geocoder_google E (world st) addr = Inr ga"
      and "HttpPost url h b \<in> set (new_events st (snd (loop_body E api site st)))"
  shows "\<exists>w3. template_step E api site
             (geo_body ga nm (fst (get_google_timezone E (g_lat ga) (g_lng ga) (world st @ [Geocode addr]))))
             (world st @ [Geocode addr, TimezoneGet (g_lat ga) (g_lng ga)]) = (Inr b, w3)"
proof -
  let ?b2 = "geo_body ga nm (fst (get_google_timezone E (g_lat ga) (g_lng ga) (world st @ [Geocode addr])))"
  let ?w2 = "world st @ [Geocode addr, TimezoneGet (g_lat ga) (g_lng ga)]"
  obtain r w3 where t: "template_step E api site ?b2 ?w2 = (r, w3)"
    by (cases "template_step E api site ?b2 ?w2")
  from world_template_step [of E api site ?b2 ?w2] t
  have w3: "w3 = ?w2 \<or> w3 = ?w2 @ [HttpGet (''https://'' @ host api @ ''/api/v1/orgs/'' @ org api @ ''/rftemplates'')
            (request_headers api)]"
    by simp
  show ?thesis
  proof (cases r)
    case (Inl e)
    with assms t w3 show ?thesis
      by (auto simp: loop_body_geocoded new_events_def)
  next
    case (Inr b3)
    with assms t w3 show ?thesis
      by (auto simp: loop_body_geocoded new_events_def world_submit_step)
  qed
qed

text \<open>
  Claim C8, as amended.  The body is a function of the row's name, of what the geocoder
  returned and of the timezone.  For a row that has a site address and a site name and
  for which the geocoder returned a result, any body that is POSTed holds the row's name
  under \<^verbatim>\<open>name\<close> and the geocoder's address, coordinates and country under
  \<^verbatim>\<open>address\<close>, \<^verbatim>\<open>latlng\<close> and \<^verbatim>\<open>country_code\<close>; and when the row's
  \<^verbatim>\<open>rf_template_name\<close> cell is the empty string, the calls made for the row are the
  geocoding, the timezone lookup and one POST whose body is exactly these four entries
  and \<^verbatim>\<open>timezone\<close>, in the order \<^verbatim>\<open>address\<close>, \<^verbatim>\<open>latlng\<close>, \<^verbatim>\<open>country_code\<close>,
  \<^verbatim>\<open>name\<close>, \<^verbatim>\<open>timezone\<close>, with no \<^verbatim>\<open>rftemplate_id\<close> key.
\<close>

theorem submission_body_from_row_and_geoinfo:
  assumes "row_get site ''site_address'' = Inr addr"
      and "row_get site ''site_name'' = Inr nm"
      and "geocoder_google E (world st) addr = Inr ga"
  shows "(\<forall>url h b. HttpPost url h b \<in> set (new_events st (snd (loop_body E api site st))) \<longrightarrow>
            map_of b ''name'' = Some (of_cell nm)
          \<and> map_of b ''address'' = Some (g_address ga)
          \<and> map_of b ''latlng'' = Some (PDict [(''lat'', g_lat ga), (''lng'', g_lng ga)])
          \<and> map_of b ''country_code'' = Some (g_country ga))
       \<and> (row_get site ''rf_template_name'' = Inr (CStr '''') \<longrightarrow>
            new_events st (snd (loop_body E api site st)) =
              [Geocode addr,
               TimezoneGet (g_lat ga) (g_lng ga),
               HttpPost (sites_url api) (request_headers api)
                 [(''address'', g_address ga),
                  (''latlng'', PDict [(''lat'', g_lat ga), (''lng'', g_lng ga)]),
                  (''country_code'', g_country ga),
                  (''name'', of_cell nm),
                  (''timezone'',
                   fst (get_google_timezone E (g_lat ga) (g_lng ga) (world st @ [Geocode addr])))]])"
proof (intro conjI allI impI)
  fix url h b
  assume "HttpPost url h b \<in> set (new_events st (snd (loop_body E api site st)))"
  from posts_of_loop_body [OF assms this] obtain w3 where
    t: "template_step E api site
          (geo_body ga nm (fst (get_google_timezone E (g_lat ga) (g_lng ga) (world st @ [Geocode addr]))))
          (world st @ [Geocode addr, TimezoneGet (g_lat ga) (g_lng ga)]) = (Inr b, w3)"
    by blast
  show "map_of b ''name'' = Some (of_cell nm)"
    by (simp add: template_step_keeps [OF t] geo_body_def)
  show "map_of b ''address'' = Some (g_address ga)"
    by (simp add: template_step_keeps [OF t] geo_body_def)
  show "map_of b ''latlng'' = Some (PDict [(''lat'', g_lat ga), (''lng'', g_lng ga)])"
    by (simp add: template_step_keeps [OF t] geo_body_def)
  show "map_of b ''country_code'' = Some (g_country ga)"
    by (simp add: template_step_keeps [OF t] geo_body_def)
next
  assume "row_get site ''rf_template_name'' = Inr (CStr '''')"
  with assms show "new_events st (snd (loop_body E api site st)) =
              [Geocode addr,
               TimezoneGet (g_lat ga) (g_lng ga),
               HttpPost (sites_url api) (request_headers api)
                 [(''address'', g_address ga),
                  (''latlng'', PDict [(''lat'', g_lat ga), (''lng'', g_lng ga)]),
                  (''country_code'', g_country ga),
                  (''name'', of_cell nm),
                  (''timezone'',
                   fst (get_google_timezone E (g_lat ga) (g_lng ga) (world st @ [Geocode addr])))]]"
    by (simp add: loop_body_geocoded template_step_empty new_events_def world_submit_step geo_body_def)
qed

theorem submission_body_from_row_and_geoinfo_witness:
  "row_get hq_row ''site_address'' = Inr (CStr ''1 Infinite Loop, Cupertino, CA'')
   \<and> row_get hq_row ''site_name'' = Inr (CStr ''HQ'')
   \<and> row_get hq_row ''rf_template_name'' = Inr (CStr '''')
   \<and> geocoder_google (sample_env sample_table) (world start_state)
         (CStr ''1 Infinite Loop, Cupertino, CA'') = Inr sample_gaddr
   \<and> new_events start_state (snd (loop_body (sample_env sample_table) sample_api hq_row start_state)) =
       [Geocode (CStr ''1 Infinite Loop, Cupertino, CA''),
        TimezoneGet (PFloat 37.33) (PFloat (- 122.03)),
        HttpPost ''https://api.mist.com/api/v1/orgs/org1/sites''
          [(''content-type'', ''application/json''), (''Authorization'', ''Token key1'')]
          [(''address'', PStr ''1 Infinite Loop, Cupertino, CA 95014, USA''),
           (''latlng'', PDict [(''lat'', PFloat 37.33), (''lng'', PFloat (- 122.03))]),
           (''country_code'', PStr ''US''),
           (''name'', PStr ''HQ''),
           (''timezone'', PStr ''America/Los_Angeles'')]]"
proof -
  let ?E = "sample_env sample_table"
  have a: "row_get hq_row ''site_address'' = Inr (CStr ''1 Infinite Loop, Cupertino, CA'')"
    and n: "row_get hq_row ''site_name'' = Inr (CStr ''HQ'')"
    and t: "row_get hq_row ''rf_template_name'' = Inr (CStr '''')"
    by (simp_all add: row_get_def hq_row_def)
  have g: "geocoder_google ?E (world start_state) (CStr ''1 Infinite Loop, Cupertino, CA'')
             = Inr sample_gaddr"
    by (simp add: sample_env_def)
  have tz: "fst (get_google_timezone ?E la lo w) = PStr ''America/Los_Angeles''" for la lo w
    by (simp add: get_google_timezone_def sample_env_def resp_def)
  have u: "sites_url sample_api = ''https://api.mist.com/api/v1/orgs/org1/sites''"
    "request_headers sample_api =
       [(''content-type'', ''application/json''), (''Authorization'', ''Token key1'')]"
    by (simp_all add: sites_url_def request_headers_def sample_api_def MistAPIToken_def
          dict_of_pairs_def)
  from submission_body_from_row_and_geoinfo [OF a n g, of sample_api] t
  have "new_events start_state (snd (loop_body ?E sample_api hq_row start_state)) =
       [Geocode (CStr ''1 Infinite Loop, Cupertino, CA''),
        TimezoneGet (PFloat 37.33) (PFloat (- 122.03)),
        HttpPost ''https://api.mist.com/api/v1/orgs/org1/sites''
          [(''content-type'', ''application/json''), (''Authorization'', ''Token key1'')]
          [(''address'', PStr ''1 Infinite Loop, Cupertino, CA 95014, USA''),
           (''latlng'', PDict [(''lat'', PFloat 37.33), (''lng'', PFloat (- 122.03))]),
           (''country_code'', PStr ''US''),
           (''name'', PStr ''HQ''),
           (''timezone'', PStr ''America/Los_Angeles'')]]"
    by (simp add: tz u sample_gaddr_def)
  with a n t g show ?thesis
    by blast
qed

text \<open>
  The claim as the specification states it fails on its own example.  The row of the
  example has an \<^verbatim>\<open>rf_template_id\<close> column and no \<^verbatim>\<open>rf_template_name\<close> column: the run
  over the file with the documented header raises \<^verbatim>\<open>KeyError\<close> in line 220 and makes no
  POST, so there is no submission.  And the body that is submitted for the same row
  under the header \<^verbatim>\<open>rf_template_name\<close> has a fifth entry, \<^verbatim>\<open>address\<close>, which the
  submission of the example lacks.
\<close>

theorem example_submission_counterexample:
  "DictReader documented_table = [hq_row_documented]
   \<and> fst (main (sample_env documented_table) sample_args) = Some KeyError
   \<and> filter is_http_post (world (snd (main (sample_env documented_table) sample_args))) = []
   \<and> new_events start_state (snd (loop_body (sample_env sample_table) sample_api hq_row start_state)) =
       [Geocode (CStr ''1 Infinite Loop, Cupertino, CA''),
        TimezoneGet (PFloat 37.33) (PFloat (- 122.03)),
        HttpPost ''https://api.mist.com/api/v1/orgs/org1/sites''
          [(''content-type'', ''application/json''), (''Authorization'', ''Token key1'')]
          hq_body]
   \<and> map_of hq_body ''address'' = Some (PStr ''1 Infinite Loop, Cupertino, CA 95014, USA'')
   \<and> map_of [(''name'', PStr ''HQ''),
              (''latlng'', PDict [(''lat'', PFloat 37.33), (''lng'', PFloat (- 122.03))]),
              (''country_code'', PStr ''US''),
              (''timezone'', PStr ''America/Los_Angeles'')] ''address'' = None"
proof -
  have ev: "new_events start_state (snd (loop_body (sample_env sample_table) sample_api hq_row start_state)) =
       [Geocode (CStr ''1 Infinite Loop, Cupertino, CA''),
        TimezoneGet (PFloat 37.33) (PFloat (- 122.03)),
        HttpPost ''https://api.mist.com/api/v1/orgs/org1/sites''
          [(''content-type'', ''application/json''), (''Authorization'', ''Token key1'')]
          hq_body]"
    by (simp add: loop_body_hq new_events_def start_state_sel)
  have ad: "map_of hq_body ''address'' = Some (PStr ''1 Infinite Loop, Cupertino, CA 95014, USA'')"
    by (simp add: hq_body_def)
  have sp: "map_of [(''name'', PStr ''HQ''),
              (''latlng'', PDict [(''lat'', PFloat 37.33), (''lng'', PFloat (- 122.03))]),
              (''country_code'', PStr ''US''),
              (''timezone'', PStr ''America/Los_Angeles'')] ''address'' = None"
    by simp
  have "fst (main (sample_env documented_table) sample_args) = Some KeyError"
    and "filter is_http_post (world (snd (main (sample_env documented_table) sample_args))) = []"
    by (simp_all add: main_documented)
  with DictReader_documented ev ad sp show ?thesis
    by blast
qed

section \<open>A failed timezone lookup\<close>

lemma timezone_down:
  "get_google_timezone env_timezone_down la lo w = (PNone, w @ [TimezoneGet la lo])"
  by (simp add: get_google_timezone_def env_timezone_down_def)

text \<open>
  Claim C10, as amended.  For a row whose geocoding succeeds, whose timezone lookup
  returns \<^verbatim>\<open>None\<close> and whose template step (lines 220 and 221) does not raise, the
  failed lookup does not stop the row: the body is POSTed with \<^verbatim>\<open>None\<close> under
  \<^verbatim>\<open>timezone\<close>, and when the POST brings a response the row goes to the successful
  sites exactly when the status code is 200, and to the failed sites otherwise.
\<close>

theorem timezone_failure_still_submits:
  assumes "row_get site ''site_address'' = Inr addr"
      and "row_get site ''site_name'' = Inr nm"
      and "geocoder_google E (world st) addr = Inr ga"
      and "fst (get_google_timezone E (g_lat ga) (g_lng ga) (world st @ [Geocode addr])) = PNone"
      and "template_step E api site (geo_body ga nm PNone)
             (world st @ [Geocode addr, TimezoneGet (g_lat ga) (g_lng ga)]) = (Inr b, w3)"
      and "requests_post E w3 (sites_url api) (request_headers api) b = Inr r"
  shows "fst (loop_body E api site st) = None
       \<and> world (snd (loop_body E api site st)) = w3 @ [HttpPost (sites_url api) (request_headers api) b]
       \<and> map_of b ''timezone'' = Some PNone
       \<and> (status_code r = 200 \<longrightarrow>
            successful_sites (snd (loop_body E api site st)) = successful_sites st @ [b]
          \<and> failed_sites (snd (loop_body E api site st)) = failed_sites st)
       \<and> (status_code r \<noteq> 200 \<longrightarrow>
            successful_sites (snd (loop_body E api site st)) = successful_sites st
          \<and> failed_sites (snd (loop_body E api site st)) = failed_sites st @ [b])"
proof -
  have "map_of b ''timezone'' = Some PNone"
    by (simp add: template_step_keeps [OF assms(5)] geo_body_def)
  moreover from assms have "loop_body E api site st = submit_step E api b (st\<lparr>world := w3\<rparr>)"
    by (simp add: loop_body_geocoded)
  ultimately show ?thesis
    using assms(6) by (simp add: submit_step_response)
qed

theorem timezone_failure_still_submits_witness:
  "fst (get_google_timezone env_timezone_down (PFloat 37.33) (PFloat (- 122.03))
          (world start_state @ [Geocode (CStr ''2 Main St, Springfield'')])) = PNone
   \<and> fst (loop_body env_timezone_down sample_api lab_row start_state) = None
   \<and> failed_sites (snd (loop_body env_timezone_down sample_api lab_row start_state)) =
       [[(''address'', PStr ''1 Infinite Loop, Cupertino, CA 95014, USA''),
         (''latlng'', PDict [(''lat'', PFloat 37.33), (''lng'', PFloat (- 122.03))]),
         (''country_code'', PStr ''US''),
         (''name'', PStr ''Lab''),
         (''timezone'', PNone),
         (''rftemplate_id'', PStr ''t-2'')]]
   \<and> successful_sites (snd (loop_body env_timezone_down sample_api lab_row start_state)) = []"
proof -
  let ?w2 = "world start_state @ [Geocode (CStr ''2 Main St, Springfield''),
               TimezoneGet (g_lat sample_gaddr) (g_lng sample_gaddr)]"
  let ?b = "[(''address'', PStr ''1 Infinite Loop, Cupertino, CA 95014, USA''),
             (''latlng'', PDict [(''lat'', PFloat 37.33), (''lng'', PFloat (- 122.03))]),
             (''country_code'', PStr ''US''),
             (''name'', PStr ''Lab''),
             (''timezone'', PNone),
             (''rftemplate_id'', PStr ''t-2'')]"
  let ?w3 = "?w2 @ [HttpGet ''https://api.mist.com/api/v1/orgs/org1/rftemplates''
                      [(''content-type'', ''application/json''), (''Authorization'', ''Token key1'')]]"
  have a: "row_get lab_row ''site_address'' = Inr (CStr ''2 Main St, Springfield'')"
    and n: "row_get lab_row ''site_name'' = Inr (CStr ''Lab'')"
    by (simp_all add: row_get_def lab_row_def)
  have g: "geocoder_google env_timezone_down (world start_state) (CStr ''2 Main St, Springfield'')
             = Inr sample_gaddr"
    by (simp add: env_timezone_down_def sample_env_def)
  have z: "fst (get_google_timezone env_timezone_down (g_lat sample_gaddr) (g_lng sample_gaddr)
             (world start_state @ [Geocode (CStr ''2 Main St, Springfield'')])) = PNone"
    by (simp add: timezone_down)
  have t: "template_step env_timezone_down sample_api lab_row
             (geo_body sample_gaddr (CStr ''Lab'') PNone) ?w2 = (Inr ?b, ?w3)"
    by (simp add: template_step_def row_get_def lab_row_def get_rftemplate_by_name_def
          get_rf_templates_def http_get_def dict_of_pairs_def Let_def geo_body_def
          env_timezone_down_def sample_env_def sample_api_def MistAPIToken_def resp_def
          sample_templates_def sample_gaddr_def)
  have p: "requests_post env_timezone_down ?w3 (sites_url sample_api) (request_headers sample_api) ?b
             = Inr (resp 400 (PDict []))"
    by (simp add: env_timezone_down_def sample_env_def)
  have s: "status_code (resp 400 (PDict [])) \<noteq> 200"
    by (simp add: resp_def)
  from timezone_failure_still_submits [OF a n g z t p] s
  have "fst (loop_body env_timezone_down sample_api lab_row start_state) = None
      \<and> successful_sites (snd (loop_body env_timezone_down sample_api lab_row start_state)) = []
      \<and> failed_sites (snd (loop_body env_timezone_down sample_api lab_row start_state)) = [?b]"
    by (simp add: start_state_sel)
  moreover from z have "fst (get_google_timezone env_timezone_down (PFloat 37.33) (PFloat (- 122.03))
          (world start_state @ [Geocode (CStr ''2 Main St, Springfield'')])) = PNone"
    by (simp add: sample_gaddr_def)
  ultimately show ?thesis
    by blast
qed

text \<open>
  The claim as the specification states it fails: with the timezone service down and
  the geocoder up, the row that asks for the unlisted template Guest is never POSTed.
  The loop body raises \<^verbatim>\<open>StopIteration\<close> after the template listing.
\<close>

theorem timezone_failure_counterexample:
  "geocoder_google env_timezone_down [] (CStr ''3 Side St, Springfield'') = Inr sample_gaddr
   \<and> fst (get_google_timezone env_timezone_down (PFloat 37.33) (PFloat (- 122.03))
            [Geocode (CStr ''3 Side St, Springfield'')]) = PNone
   \<and> loop_body env_timezone_down sample_api guest_row start_state =
       (Some StopIteration,
        \<lparr>successful_sites = [], failed_sites = [],
         world = [Geocode (CStr ''3 Side St, Springfield''),
                  TimezoneGet (PFloat 37.33) (PFloat (- 122.03)),
                  HttpGet ''https://api.mist.com/api/v1/orgs/org1/rftemplates''
                    [(''content-type'', ''application/json''), (''Authorization'', ''Token key1'')]]\<rparr>)"
  by (simp add: env_timezone_down_def model_defs sample_defs)

end
